theory Spec2Isabelle
  imports Complex_Main "HOL-Library.Sublist"
begin

section \<open>Personal Library Manager: the record store of \<open>library_manager.py\<close>\<close>

text \<open>
  The program keeps a list of book dictionaries in \<open>st.session_state.library\<close> and
  persists it as JSON text in the file \<open>library.txt\<close>. Every function of the source reads
  its inputs from Streamlit widgets and reports through \<open>st.success\<close>, \<open>st.error\<close>,
  \<open>st.info\<close>, \<open>st.warning\<close>, \<open>st.dataframe\<close> and \<open>st.write\<close>. In the model the widget
  values are the parameters of a function, the session and the file store are passed
  explicitly as a record, and what the function reports is its second result.

  Text is a \<open>string\<close>, a list of 8-bit characters read as the code points
  U+0000 to U+00FF; Python text with code points beyond U+00FF is outside the model.
\<close>

subsection \<open>Python's string methods on the modelled characters\<close>

text \<open>
  \<open>str.strip()\<close> removes leading and trailing whitespace. Among the code points up to
  U+00FF Python counts as whitespace: U+0009 to U+000D, U+001C to U+001F, the space,
  U+0085 and U+00A0.
\<close>

definition is_space :: "char \<Rightarrow> bool" where
  "is_space c =
     (let n = (of_char c :: nat)
      in (9 \<le> n \<and> n \<le> 13) \<or> (28 \<le> n \<and> n \<le> 32) \<or> n = 133 \<or> n = 160)"

definition strip :: "string \<Rightarrow> string" where
  "strip s = rev (dropWhile is_space (rev (dropWhile is_space s)))"

text \<open>
  \<open>str.lower()\<close>: the letters A to Z, and the Latin-1 capitals U+00C0 to U+00DE except
  the multiplication sign U+00D7, move up by 32; every other modelled character stays.
\<close>

definition lower_char :: "char \<Rightarrow> char" where
  "lower_char c =
     (let n = (of_char c :: nat)
      in if (65 \<le> n \<and> n \<le> 90) \<or> (192 \<le> n \<and> n \<le> 222 \<and> n \<noteq> 215)
         then char_of (n + 32) else c)"

definition lower :: "string \<Rightarrow> string" where
  "lower s = map lower_char s"

subsection \<open>Books, the session and what a function reports\<close>

text \<open>The dictionary built on lines 49 to 55, with its five keys in this order.\<close>

record book =
  title :: string
  author :: string
  year :: int
  genre :: string
  read :: bool

text \<open>
  What the file store holds at a path: a text, or something that \<open>open(..., 'r')\<close> and
  \<open>read\<close> cannot deliver as text (a directory, a file the process may not read, bytes that
  are no text in the default encoding), with the exception that they raise.
\<close>

datatype file_content = Text string | Unreadable string

text \<open>
  \<open>library\<close> is \<open>st.session_state.library\<close>; \<open>files\<close> is the file store the process
  sees, a map from the paths that exist (\<open>os.path.exists\<close>) to what they hold.
\<close>

record state =
  library :: "book list"
  files :: "string \<rightharpoonup> file_content"

text \<open>The locals \<open>total_books\<close>, \<open>read_books\<close> and \<open>percentage_read\<close> of lines 113 to 115.\<close>

record statistics =
  total_books :: nat
  read_books :: nat
  percentage_read :: rat

datatype notice =
    Success string
  | Error string
  | Info string
  | Warning string
  | Dataframe "book list"
  | Written statistics

definition LIBRARY_FILE :: string where
  "LIBRARY_FILE = ''library.txt''"

subsection \<open>\<open>add_book\<close>\<close>

text \<open>
  Lines 47 to 59. The parameters are the values of the form's widgets: the three text
  inputs, the number input (an integer; \<open>int(year)\<close> leaves it as it is), the choice of
  the select box (\<open>''Yes''\<close> or \<open>''No''\<close>) and the submit button. A non-empty Python string
  is true in a condition.
\<close>

definition add_book ::
  "string \<Rightarrow> string \<Rightarrow> int \<Rightarrow> string \<Rightarrow> string \<Rightarrow> bool \<Rightarrow> state \<Rightarrow> state \<times> notice option" where
  "add_book title_in author_in year_in genre_in read_in submit s =
     (if submit then
        (if strip title_in \<noteq> [] \<and> strip author_in \<noteq> [] \<and> strip genre_in \<noteq> [] then
           (let b = \<lparr>title = strip title_in,
                     author = strip author_in,
                     year = year_in,
                     genre = strip genre_in,
                     read = (read_in = ''Yes'')\<rparr>
            in (s\<lparr>library := library s @ [b]\<rparr>, Some (Success ''Book added successfully!'')))
         else (s, Some (Error ''Please fill in all fields.'')))
      else (s, None))"

subsection \<open>\<open>remove_book\<close>\<close>

text \<open>
  Lines 67 to 72: the loop runs over a copy of the library (\<open>library[:]\<close>, first
  argument) and, at the first book whose lowered title is the key, calls
  \<open>library.remove(book)\<close> on the library itself (second argument) and returns.
  \<open>list.remove\<close> deletes the first element equal to its argument, which is \<open>remove1\<close>.
  The result is \<open>None\<close> when the loop ends without a match.
\<close>

fun remove_scan :: "string \<Rightarrow> book list \<Rightarrow> book list \<Rightarrow> book list option" where
  "remove_scan key [] lib = None"
| "remove_scan key (b # bs) lib =
     (if lower (title b) = key then Some (remove1 b lib) else remove_scan key bs lib)"

definition remove_book :: "string \<Rightarrow> bool \<Rightarrow> state \<Rightarrow> state \<times> notice option" where
  "remove_book title_in pressed s =
     (if pressed then
        (if strip title_in \<noteq> [] then
           (case remove_scan (lower (strip title_in)) (library s) (library s) of
              Some lib' \<Rightarrow> (s\<lparr>library := lib'\<rparr>, Some (Success ''Book removed successfully!''))
            | None \<Rightarrow> (s, Some (Error ''Book not found in the library.'')))
         else (s, Some (Error ''Please enter a book title.'')))
      else (s, None))"

subsection \<open>\<open>search_book\<close>\<close>

text \<open>
  Lines 82 to 97. \<open>search_by\<close> is the choice of the select box, \<open>''Title''\<close> or
  \<open>''Author''\<close>; Python's \<open>a in b\<close> on strings is \<open>sublist a b\<close>. The emptiness test
  strips the term, the two comprehensions lower the term as it was typed.
\<close>

definition search_book :: "string \<Rightarrow> string \<Rightarrow> bool \<Rightarrow> state \<Rightarrow> state \<times> notice option" where
  "search_book search_by search_term pressed s =
     (if pressed then
        (if strip search_term \<noteq> [] then
           (let matches =
                  (if search_by = ''Title''
                   then filter (\<lambda>b. sublist (lower search_term) (lower (title b))) (library s)
                   else filter (\<lambda>b. sublist (lower search_term) (lower (author b))) (library s))
            in if matches \<noteq> [] then (s, Some (Dataframe matches))
               else (s, Some (Warning ''No matching books found.'')))
         else (s, Some (Error (''Please enter a '' @ lower search_by @ '' to search.''))))
      else (s, None))"

subsection \<open>\<open>display_statistics\<close>\<close>


section \<open>Persistence: Python's \<open>json\<close> module on the library file\<close>

text \<open>
  \<open>save_library\<close> calls \<open>json.dump(library, file, indent=4)\<close> and \<open>load_library\<close> calls
  \<open>json.load(file)\<close>. Both belong to Python's standard library, not to the repository;
  this section models them on the text of the file, following \<open>json/encoder.py\<close>,
  \<open>json/decoder.py\<close> and \<open>json/scanner.py\<close>.

  A JSON string holds code points, as a Python string does (a \<open>\\uXXXX\<close> escape in the
  file can name any of them). A float is kept as the literal that denotes it: its value
  as a double is not modelled, and no book holds one. A dictionary is the list of its
  items in insertion order, with distinct keys. The interpreter's recursion limit and its
  limit on the digits of an integer literal are not modelled.
\<close>

datatype json =
    JNull
  | JBool bool
  | JInt int
  | JFloat string
  | JStr "nat list"
  | JArr "json list"
  | JObj "(nat list \<times> json) list"

datatype decode_error = JSONDecodeError

subsection \<open>\<open>json.dump\<close> with \<open>indent=4\<close>\<close>

text \<open>
  With the default \<open>ensure_ascii=True\<close> the encoder writes the backslash, the double
  quote and the five named control characters as two-character escapes, every other code
  point outside the printable ASCII range as \<open>\\uXXXX\<close> with four lower-case hexadecimal
  digits, and a code point beyond U+FFFF as a surrogate pair.
\<close>

definition hex_digit :: "nat \<Rightarrow> char" where
  "hex_digit k = (if k < 10 then char_of (48 + k) else char_of (87 + k))"

definition hex4 :: "nat \<Rightarrow> string" where
  "hex4 n = [hex_digit (n div 4096 mod 16), hex_digit (n div 256 mod 16),
             hex_digit (n div 16 mod 16), hex_digit (n mod 16)]"

definition escape_char :: "nat \<Rightarrow> string" where
  "escape_char n =
     (if n = 0x5C then [CHR 0x5C, CHR 0x5C]
      else if n = 0x22 then [CHR 0x5C, CHR 0x22]
      else if n = 0x08 then [CHR 0x5C, CHR ''b'']
      else if n = 0x0C then [CHR 0x5C, CHR ''f'']
      else if n = 0x0A then [CHR 0x5C, CHR ''n'']
      else if n = 0x0D then [CHR 0x5C, CHR ''r'']
      else if n = 0x09 then [CHR 0x5C, CHR ''t'']
      else if 0x20 \<le> n \<and> n \<le> 0x7E then [char_of n]
      else if n < 0x10000 then [CHR 0x5C, CHR ''u''] @ hex4 n
      else (let m = n - 0x10000;
                s1 = 0xD800 + (m div 1024) mod 1024;
                s2 = 0xDC00 + m mod 1024
            in [CHR 0x5C, CHR ''u''] @ hex4 s1 @ [CHR 0x5C, CHR ''u''] @ hex4 s2))"

definition encode_string :: "nat list \<Rightarrow> string" where
  "encode_string s = [CHR 0x22] @ concat (map escape_char s) @ [CHR 0x22]"

text \<open>\<open>int.__repr__\<close>: the decimal digits, after a minus sign for a negative integer.\<close>

fun dec_digits :: "nat \<Rightarrow> string" where
  "dec_digits n =
     (if n < 10 then [char_of (48 + n)]
      else dec_digits (n div 10) @ [char_of (48 + n mod 10)])"

declare dec_digits.simps [simp del]

definition int_repr :: "int \<Rightarrow> string" where
  "int_repr i = (if i < 0 then CHR ''-'' # dec_digits (nat (- i)) else dec_digits (nat i))"

fun join :: "string \<Rightarrow> string list \<Rightarrow> string" where
  "join sep [] = []"
| "join sep [x] = x"
| "join sep (x # y # ys) = x @ sep @ join sep (y # ys)"

text \<open>
  With an indent the item separator is a comma followed by a newline and the indentation
  of the current level, the key separator is a colon and a space, and an empty container
  is written without a line break.
\<close>

definition newline_indent :: "nat \<Rightarrow> string" where
  "newline_indent level = CHR 0x0A # replicate (4 * level) CHR '' ''"

fun encode :: "nat \<Rightarrow> json \<Rightarrow> string" where
  "encode level JNull = ''null''"
| "encode level (JBool b) = (if b then ''true'' else ''false'')"
| "encode level (JInt i) = int_repr i"
| "encode level (JFloat lexeme) = lexeme"
| "encode level (JStr s) = encode_string s"
| "encode level (JArr vs) =
     (if vs = [] then ''[]''
      else ''['' @ newline_indent (level + 1)
           @ join ('','' @ newline_indent (level + 1)) (map (encode (level + 1)) vs)
           @ newline_indent level @ '']'')"
| "encode level (JObj kvs) =
     (if kvs = [] then ''{}''
      else ''{'' @ newline_indent (level + 1)
           @ join ('','' @ newline_indent (level + 1))
               (map (\<lambda>(k, v). encode_string k @ '': '' @ encode (level + 1) v) kvs)
           @ newline_indent level @ ''}'')"

definition json_dumps :: "json \<Rightarrow> string" where
  "json_dumps v = encode 0 v"

subsection \<open>\<open>json.load\<close>: strings\<close>

text \<open>
  \<open>py_scanstring\<close> in strict mode, from the character after the opening quote: a quote
  ends the string, a backslash starts an escape, a control character below U+0020 is an
  error, any other character stands for itself. A \<open>\\u\<close> escape takes four hexadecimal
  digits; a high surrogate directly followed by a \<open>\\u\<close> escape of a low surrogate makes
  one code point with it.
\<close>

definition hex_value :: "char \<Rightarrow> nat option" where
  "hex_value c =
     (let n = (of_char c :: nat)
      in if 48 \<le> n \<and> n \<le> 57 then Some (n - 48)
         else if 65 \<le> n \<and> n \<le> 70 then Some (n - 55)
         else if 97 \<le> n \<and> n \<le> 102 then Some (n - 87)
         else None)"

definition decode_uXXXX :: "string \<Rightarrow> (nat \<times> string) option" where
  "decode_uXXXX s =
     (case s of
        a # b # c # d # r \<Rightarrow>
          (case (hex_value a, hex_value b, hex_value c, hex_value d) of
             (Some x, Some y, Some z, Some w) \<Rightarrow> Some (4096 * x + 256 * y + 16 * z + w, r)
           | _ \<Rightarrow> None)
      | _ \<Rightarrow> None)"

definition backslash :: "char \<Rightarrow> nat option" where
  "backslash e =
     (if e = CHR 0x22 then Some 0x22
      else if e = CHR 0x5C then Some 0x5C
      else if e = CHR ''/'' then Some 0x2F
      else if e = CHR ''b'' then Some 0x08
      else if e = CHR ''f'' then Some 0x0C
      else if e = CHR ''n'' then Some 0x0A
      else if e = CHR ''r'' then Some 0x0D
      else if e = CHR ''t'' then Some 0x09
      else None)"

definition scan_escape :: "string \<Rightarrow> (nat \<times> string) option" where
  "scan_escape s =
     (case s of
        [] \<Rightarrow> None
      | e # es \<Rightarrow>
          if e = CHR ''u'' then
            (case decode_uXXXX es of
               None \<Rightarrow> None
             | Some (uni, r) \<Rightarrow>
                 if 0xD800 \<le> uni \<and> uni \<le> 0xDBFF \<and> take 2 r = [CHR 0x5C, CHR ''u''] then
                   (case decode_uXXXX (drop 2 r) of
                      None \<Rightarrow> None
                    | Some (uni2, r2) \<Rightarrow>
                        if 0xDC00 \<le> uni2 \<and> uni2 \<le> 0xDFFF
                        then Some (0x10000 + ((uni - 0xD800) * 1024 + (uni2 - 0xDC00)), r2)
                        else Some (uni, r))
                 else Some (uni, r))
          else (case backslash e of None \<Rightarrow> None | Some ch \<Rightarrow> Some (ch, es)))"

lemma decode_uXXXX_length: "decode_uXXXX s = Some (u, r) \<Longrightarrow> length r < length s"
  by (auto simp: decode_uXXXX_def split: list.splits option.splits)

lemma scan_escape_length: "scan_escape s = Some (ch, r) \<Longrightarrow> length r < length s"
  by (auto simp: scan_escape_def split: list.splits option.splits if_splits
      dest!: decode_uXXXX_length)

function scanstring :: "nat list \<Rightarrow> string \<Rightarrow> decode_error + (nat list \<times> string)" where
  "scanstring acc [] = Inl JSONDecodeError"
| "scanstring acc (c # cs) =
     (if c = CHR 0x22 then Inr (acc, cs)
      else if c = CHR 0x5C then
        (case scan_escape cs of
           None \<Rightarrow> Inl JSONDecodeError
         | Some (ch, r) \<Rightarrow> scanstring (acc @ [ch]) r)
      else if (of_char c :: nat) < 0x20 then Inl JSONDecodeError
      else scanstring (acc @ [of_char c]) cs)"
  by pat_completeness auto
termination
  by (relation "measure (\<lambda>(acc, s). length s)") (auto dest: scan_escape_length)

subsection \<open>\<open>json.load\<close>: numbers\<close>

text \<open>
  The scanner's \<open>NUMBER_RE\<close>: an optional minus sign, then \<open>0\<close> or a digit from 1 to 9
  followed by digits; an optional fraction, a point followed by at least one digit; an
  optional exponent, \<open>e\<close> or \<open>E\<close>, an optional sign and at least one digit. A match with
  a fraction or an exponent is a float, any other is read by \<open>int\<close>.
\<close>

definition is_ws :: "char \<Rightarrow> bool" where
  "is_ws c = (c = CHR '' '' \<or> c = CHR 0x09 \<or> c = CHR 0x0A \<or> c = CHR 0x0D)"

definition skip_ws :: "string \<Rightarrow> string" where
  "skip_ws s = dropWhile is_ws s"

definition is_digit :: "char \<Rightarrow> bool" where
  "is_digit c = (let n = (of_char c :: nat) in 48 \<le> n \<and> n \<le> 57)"

definition digits_value :: "string \<Rightarrow> nat" where
  "digits_value ds = foldl (\<lambda>a c. 10 * a + (of_char c - 48)) 0 ds"

definition match_integer :: "string \<Rightarrow> (string \<times> string) option" where
  "match_integer s =
     (case s of
        [] \<Rightarrow> None
      | c # cs \<Rightarrow>
          if c = CHR ''0'' then Some ([c], cs)
          else if is_digit c then Some (c # takeWhile is_digit cs, dropWhile is_digit cs)
          else None)"

definition match_frac :: "string \<Rightarrow> string \<times> string" where
  "match_frac s =
     (case s of
        [] \<Rightarrow> ([], s)
      | c # cs \<Rightarrow>
          if c = CHR ''.'' \<and> takeWhile is_digit cs \<noteq> []
          then (c # takeWhile is_digit cs, dropWhile is_digit cs)
          else ([], s))"

definition match_sign :: "string \<Rightarrow> string \<times> string" where
  "match_sign s =
     (case s of
        [] \<Rightarrow> ([], s)
      | c # cs \<Rightarrow> if c = CHR ''-'' \<or> c = CHR ''+'' then ([c], cs) else ([], s))"

definition match_exp :: "string \<Rightarrow> string \<times> string" where
  "match_exp s =
     (case s of
        [] \<Rightarrow> ([], s)
      | c # cs \<Rightarrow>
          if c = CHR ''e'' \<or> c = CHR ''E'' then
            (let (sign, r) = match_sign cs
             in if takeWhile is_digit r \<noteq> []
                then (c # sign @ takeWhile is_digit r, dropWhile is_digit r)
                else ([], s))
          else ([], s))"

definition match_number :: "string \<Rightarrow> (json \<times> string) option" where
  "match_number s =
     (let (minus, s1) = (case s of [] \<Rightarrow> ([], s)
                         | c # cs \<Rightarrow> if c = CHR ''-'' then ([c], cs) else ([], s))
      in case match_integer s1 of
           None \<Rightarrow> None
         | Some (ds, r1) \<Rightarrow>
             (let (frac, r2) = match_frac r1;
                  (ex, r3) = match_exp r2
              in if frac \<noteq> [] \<or> ex \<noteq> [] then Some (JFloat (minus @ ds @ frac @ ex), r3)
                 else Some (JInt (if minus = [] then int (digits_value ds)
                                  else - int (digits_value ds)), r3)))"

subsection \<open>\<open>json.load\<close>: values\<close>

text \<open>
  \<open>scan_start\<close> is the dispatch of \<open>_scan_once\<close> on the first character, with the
  look-ahead of \<open>JSONArray\<close> and \<open>JSONObject\<close> for an empty container: it returns a value
  that needs no recursion, or the place where the first element of an array or the first
  key of an object (after its opening quote) begins. \<open>dict\<close> builds the dictionary of an
  object from its pairs: a key that comes again replaces the value and keeps its place.
\<close>

definition starts_with :: "string \<Rightarrow> string \<Rightarrow> bool" where
  "starts_with p s = (take (length p) s = p)"

fun dict_set :: "(nat list \<times> json) list \<Rightarrow> nat list \<Rightarrow> json \<Rightarrow> (nat list \<times> json) list" where
  "dict_set [] k v = [(k, v)]"
| "dict_set ((k', v') # d) k v = (if k' = k then (k, v) # d else (k', v') # dict_set d k v)"

definition dict :: "(nat list \<times> json) list \<Rightarrow> (nat list \<times> json) list" where
  "dict pairs = foldl (\<lambda>d (k, v). dict_set d k v) [] pairs"

datatype start = Atom json string | Open_Array string | Open_Object string | No_Value

definition scan_start :: "string \<Rightarrow> start" where
  "scan_start s =
     (case s of
        [] \<Rightarrow> No_Value
      | c # cs \<Rightarrow>
          if c = CHR 0x22 then
            (case scanstring [] cs of Inl e \<Rightarrow> No_Value | Inr (str, r) \<Rightarrow> Atom (JStr str) r)
          else if c = CHR ''{'' then
            (case skip_ws cs of
               [] \<Rightarrow> No_Value
             | d # ds \<Rightarrow> if d = CHR ''}'' then Atom (JObj []) ds
                         else if d = CHR 0x22 then Open_Object ds
                         else No_Value)
          else if c = CHR ''['' then
            (case skip_ws cs of
               [] \<Rightarrow> No_Value
             | d # ds \<Rightarrow> if d = CHR '']'' then Atom (JArr []) ds else Open_Array (d # ds))
          else if starts_with ''null'' s then Atom JNull (drop 4 s)
          else if starts_with ''true'' s then Atom (JBool True) (drop 4 s)
          else if starts_with ''false'' s then Atom (JBool False) (drop 5 s)
          else
            (case match_number s of
               Some (v, r) \<Rightarrow> Atom v r
             | None \<Rightarrow>
                 if starts_with ''NaN'' s then Atom (JFloat ''NaN'') (drop 3 s)
                 else if starts_with ''Infinity'' s then Atom (JFloat ''Infinity'') (drop 8 s)
                 else if starts_with ''-Infinity'' s then Atom (JFloat ''-Infinity'') (drop 9 s)
                 else No_Value))"

text \<open>
  What follows a value: in an array the closing bracket or a comma and the next element;
  in an object the closing brace or a comma and the opening quote of the next key. After
  a key come a colon and the value.
\<close>

datatype continue = Close string | More string | No_Delimiter

definition array_next :: "string \<Rightarrow> continue" where
  "array_next s =
     (case skip_ws s of
        [] \<Rightarrow> No_Delimiter
      | d # ds \<Rightarrow> if d = CHR '']'' then Close ds
                  else if d = CHR '','' then More (skip_ws ds)
                  else No_Delimiter)"

definition object_next :: "string \<Rightarrow> continue" where
  "object_next s =
     (case skip_ws s of
        [] \<Rightarrow> No_Delimiter
      | d # ds \<Rightarrow>
          if d = CHR ''}'' then Close ds
          else if d = CHR '','' then
            (case skip_ws ds of
               [] \<Rightarrow> No_Delimiter
             | q # qs \<Rightarrow> if q = CHR 0x22 then More qs else No_Delimiter)
          else No_Delimiter)"

definition object_key :: "string \<Rightarrow> (nat list \<times> string) option" where
  "object_key s =
     (case scanstring [] s of
        Inl e \<Rightarrow> None
      | Inr (key, r) \<Rightarrow>
          (case skip_ws r of
             [] \<Rightarrow> None
           | d # ds \<Rightarrow> if d = CHR '':'' then Some (key, skip_ws ds) else None))"

lemma scanstring_length: "scanstring acc s = Inr (x, r) \<Longrightarrow> length r < length s"
proof (induction acc s rule: scanstring.induct)
  case (1 acc)
  then show ?case by simp
next
  case (2 acc c cs)
  then show ?case
    by (fastforce split: if_splits option.splits dest!: scan_escape_length)
qed

lemma skip_ws_length: "length (skip_ws s) \<le> length s"
  by (simp add: skip_ws_def length_dropWhile_le)

lemma skip_ws_Cons_length: "skip_ws s = d # ds \<Longrightarrow> length ds < length s"
  using skip_ws_length [of s] by simp

lemma scan_start_array_length: "scan_start s = Open_Array r \<Longrightarrow> length r < length s"
  by (auto simp: scan_start_def less_Suc_eq_le skip_ws_length
      split: list.splits if_splits sum.splits option.splits)

lemma scan_start_object_length: "scan_start s = Open_Object r \<Longrightarrow> length r < length s"
  by (auto simp: scan_start_def split: list.splits if_splits sum.splits option.splits
      dest!: skip_ws_Cons_length)

lemma object_key_length: "object_key s = Some (k, r) \<Longrightarrow> length r < length s"
proof -
  assume a: "object_key s = Some (k, r)"
  then obtain r0 d ds where s: "scanstring [] s = Inr (k, r0)" and w: "skip_ws r0 = d # ds"
    and r: "r = skip_ws ds"
    by (auto simp: object_key_def split: sum.splits list.splits if_splits)
  from scanstring_length [OF s] skip_ws_Cons_length [OF w] skip_ws_length [of ds] r
  show ?thesis by simp
qed

text \<open>
  The loops of \<open>JSONArray\<close> and \<open>JSONObject\<close>, with the values read so far as their first
  argument, and \<open>_scan_once\<close>. The test \<open>length r' < length s\<close> before a loop goes on is
  there for the termination proof alone: what is left after a value and a comma is
  shorter than the text the value began in, so its \<open>else\<close> is never taken, and the
  loops satisfy their equations without the test (\<open>parse_array_unguarded\<close> and
  \<open>parse_object_unguarded\<close> below).
\<close>

function scan_once :: "string \<Rightarrow> decode_error + (json \<times> string)"
  and parse_array :: "json list \<Rightarrow> string \<Rightarrow> decode_error + (json \<times> string)"
  and parse_object :: "(nat list \<times> json) list \<Rightarrow> string \<Rightarrow> decode_error + (json \<times> string)"
where
  "scan_once s =
     (case scan_start s of
        No_Value \<Rightarrow> Inl JSONDecodeError
      | Atom v r \<Rightarrow> Inr (v, r)
      | Open_Array r \<Rightarrow> parse_array [] r
      | Open_Object r \<Rightarrow> parse_object [] r)"
| "parse_array acc s =
     (case scan_once s of
        Inl e \<Rightarrow> Inl e
      | Inr (v, r) \<Rightarrow>
          (case array_next r of
             No_Delimiter \<Rightarrow> Inl JSONDecodeError
           | Close r' \<Rightarrow> Inr (JArr (acc @ [v]), r')
           | More r' \<Rightarrow>
               if length r' < length s then parse_array (acc @ [v]) r'
               else Inl JSONDecodeError))"
| "parse_object acc s =
     (case object_key s of
        None \<Rightarrow> Inl JSONDecodeError
      | Some (key, r) \<Rightarrow>
          (case scan_once r of
             Inl e \<Rightarrow> Inl e
           | Inr (v, r2) \<Rightarrow>
               (case object_next r2 of
                  No_Delimiter \<Rightarrow> Inl JSONDecodeError
                | Close r' \<Rightarrow> Inr (JObj (dict (acc @ [(key, v)])), r')
                | More r' \<Rightarrow>
                    if length r' < length s then parse_object (acc @ [(key, v)]) r'
                    else Inl JSONDecodeError)))"
  by pat_completeness auto
termination
  by (relation "measure (\<lambda>x. case x of
          Inl s \<Rightarrow> 2 * length s
        | Inr (Inl (acc, s)) \<Rightarrow> 2 * length s + 1
        | Inr (Inr (acc, s)) \<Rightarrow> 2 * length s + 1)")
     (auto dest: scan_start_array_length scan_start_object_length object_key_length)

declare scanstring.simps(2) [simp del]
declare scan_once.simps [simp del] parse_array.simps [simp del] parse_object.simps [simp del]

text \<open>
  \<open>JSONDecoder.decode\<close>: whitespace, one value, whitespace, and nothing more (\<open>Extra
  data\<close> otherwise).
\<close>

definition json_loads :: "string \<Rightarrow> decode_error + json" where
  "json_loads s =
     (case scan_once (skip_ws s) of
        Inl e \<Rightarrow> Inl e
      | Inr (v, r) \<Rightarrow> if skip_ws r = [] then Inr v else Inl JSONDecodeError)"

subsection \<open>Books as JSON values\<close>

text \<open>
  The Python value of a book is a dictionary with the five keys in the order of lines 50
  to 54, and the library is the list of these. \<open>library_of_json\<close> reads a value back as a
  library when it is such a list, with texts within the modelled characters.
\<close>

definition cps :: "string \<Rightarrow> nat list" where
  "cps s = map of_char s"

definition text_of :: "nat list \<Rightarrow> string option" where
  "text_of ns = (if list_all (\<lambda>n. n < 256) ns then Some (map char_of ns) else None)"

definition json_of_book :: "book \<Rightarrow> json" where
  "json_of_book b =
     JObj [(cps ''title'', JStr (cps (title b))),
           (cps ''author'', JStr (cps (author b))),
           (cps ''year'', JInt (year b)),
           (cps ''genre'', JStr (cps (genre b))),
           (cps ''read'', JBool (read b))]"

definition book_of_json :: "json \<Rightarrow> book option" where
  "book_of_json j =
     (case j of
        JObj [(k1, JStr t), (k2, JStr a), (k3, JInt y), (k4, JStr g), (k5, JBool r)] \<Rightarrow>
          if [k1, k2, k3, k4, k5]
               = [cps ''title'', cps ''author'', cps ''year'', cps ''genre'', cps ''read'']
          then (case (text_of t, text_of a, text_of g) of
                  (Some t', Some a', Some g') \<Rightarrow>
                    Some \<lparr>title = t', author = a', year = y, genre = g', read = r\<rparr>
                | _ \<Rightarrow> None)
          else None
      | _ \<Rightarrow> None)"

definition json_of_library :: "book list \<Rightarrow> json" where
  "json_of_library lib = JArr (map json_of_book lib)"

definition library_of_json :: "json \<Rightarrow> book list option" where
  "library_of_json j = (case j of JArr vs \<Rightarrow> those (map book_of_json vs) | _ \<Rightarrow> None)"

subsection \<open>\<open>load_library\<close>\<close>

text \<open>
  Lines 15 to 24. A text that \<open>json.load\<close> rejects gives the error report and the empty
  library; a missing file gives the information and leaves the session as it is (\<open>main\<close>
  calls \<open>load_library\<close> only when the library is empty, line 128). The handler of line 20
  is for \<open>json.JSONDecodeError\<close> alone: an exception that \<open>open\<close> or \<open>read\<close> raises leaves
  \<open>load_library\<close>, which is the result \<open>Raised\<close>. Whatever value \<open>json.load\<close> returns
  becomes the library: when that value is no list of book dictionaries the session leaves
  what the record \<open>state\<close> can hold, and the model stops with that value, the result
  \<open>Foreign_Value\<close>.
\<close>

datatype escape = Raised string | Foreign_Value json

definition load_library :: "state \<Rightarrow> escape + state \<times> notice" where
  "load_library s =
     (case files s LIBRARY_FILE of
        Some (Text content) \<Rightarrow>
          (case json_loads content of
             Inr v \<Rightarrow>
               (case library_of_json v of
                  Some lib \<Rightarrow> Inr (s\<lparr>library := lib\<rparr>, Success ''Library loaded from file.'')
                | None \<Rightarrow> Inl (Foreign_Value v))
           | Inl JSONDecodeError \<Rightarrow>
               Inr (s\<lparr>library := []\<rparr>,
                    Error ''Error loading library file. Starting with an empty library.''))
      | Some (Unreadable e) \<Rightarrow> Inl (Raised e)
      | None \<Rightarrow> Inr (s, Info ''No library file found. Starting with an empty library.''))"

subsection \<open>\<open>save_library\<close>\<close>

text \<open>
  Lines 28 to 33. Whether \<open>open\<close> or the write raises is not decided by the program: the
  first parameter is the exception the file system raises, if any, with its message.
  \<open>open(..., 'w')\<close> that succeeds empties the file, so a write that fails after it leaves
  a prefix of the text; every exception is caught and reported.
\<close>

datatype io_fault = Open_Fails string | Write_Fails nat string

fun fault_message :: "io_fault \<Rightarrow> string" where
  "fault_message (Open_Fails e) = e"
| "fault_message (Write_Fails n e) = e"

definition save_library :: "io_fault option \<Rightarrow> state \<Rightarrow> state \<times> notice" where
  "save_library io s =
     (let content = json_dumps (json_of_library (library s))
      in case io of
           None \<Rightarrow>
             (s\<lparr>files := (files s)(LIBRARY_FILE \<mapsto> Text content)\<rparr>,
              Success ''Library saved to file.'')
         | Some (Open_Fails e) \<Rightarrow> (s, Error (''Error saving library: '' @ e))
         | Some (Write_Fails n e) \<Rightarrow>
             (s\<lparr>files := (files s)(LIBRARY_FILE \<mapsto> Text (take n content))\<rparr>,
              Error (''Error saving library: '' @ e)))"

section \<open>Notions of the specification and sample data\<close>

subsection \<open>Notions of the specification\<close>

text \<open>
  The index of the first book whose lowered title is the key, and the deletion of one
  position: removal as the specification describes it, to compare with the loop.
\<close>

fun first_match_index :: "string \<Rightarrow> book list \<Rightarrow> nat option" where
  "first_match_index key [] = None"
| "first_match_index key (b # bs) =
     (if lower (title b) = key then Some 0 else map_option Suc (first_match_index key bs))"

definition delete_at :: "nat \<Rightarrow> 'a list \<Rightarrow> 'a list" where
  "delete_at i xs = take i xs @ drop (Suc i) xs"



subsection \<open>The layout of the file, in the words of the specification\<close>




subsection \<open>Sample data\<close>

definition foo1 :: book where
  "foo1 = \<lparr>title = ''Foo'', author = ''Ann'', year = 2001, genre = ''Essay'', read = False\<rparr>"

definition foo2 :: book where
  "foo2 = \<lparr>title = ''FOO'', author = ''Bob'', year = 2002, genre = ''Novel'', read = True\<rparr>"

definition dune :: book where
  "dune = \<lparr>title = ''Dune'', author = ''Frank Herbert'', year = 1965, genre = ''SciFi'',
           read = True\<rparr>"

definition session :: "book list \<Rightarrow> state" where
  "session lib = \<lparr>library = lib, files = Map.empty\<rparr>"

definition stored :: "string \<Rightarrow> state" where
  "stored content = \<lparr>library = [], files = [LIBRARY_FILE \<mapsto> Text content]\<rparr>"



section \<open>Removal\<close>

lemma remove_scan_first:
  "\<forall>x\<in>set pre. lower (title x) \<noteq> key \<Longrightarrow> lower (title b) = key
   \<Longrightarrow> remove_scan key (pre @ b # post) lib = Some (remove1 b lib)"
  by (induction pre) auto

lemma remove_scan_none:
  "\<forall>x\<in>set bs. lower (title x) \<noteq> key \<Longrightarrow> remove_scan key bs lib = None"
  by (induction bs) auto

lemma remove1_first:
  "\<forall>x\<in>set pre. lower (title x) \<noteq> key \<Longrightarrow> lower (title b) = key
   \<Longrightarrow> remove1 b (pre @ b # post) = pre @ post"
  by (auto simp: remove1_append)

lemma first_match_index_first:
  "\<forall>x\<in>set pre. lower (title x) \<noteq> key \<Longrightarrow> lower (title b) = key
   \<Longrightarrow> first_match_index key (pre @ b # post) = Some (length pre)"
  by (induction pre) auto

lemma first_match_index_none:
  "\<forall>x\<in>set bs. lower (title x) \<noteq> key \<Longrightarrow> first_match_index key bs = None"
  by (induction bs) auto

lemma remove_scan_delete_at:
  "remove_scan key lib lib =
     (case first_match_index key lib of Some i \<Rightarrow> Some (delete_at i lib) | None \<Rightarrow> None)"
proof (cases "\<exists>b\<in>set lib. lower (title b) = key")
  case True
  then obtain pre b post where
    lib: "lib = pre @ b # post" and b: "lower (title b) = key"
    and pre: "\<forall>x\<in>set pre. lower (title x) \<noteq> key"
    using split_list_first_prop [of lib "\<lambda>b. lower (title b) = key"] by blast
  have "remove_scan key lib lib = Some (pre @ post)"
    using remove_scan_first [OF pre b, of post lib] remove1_first [OF pre b, of post]
    by (simp add: lib)
  moreover have "first_match_index key lib = Some (length pre)"
    using first_match_index_first [OF pre b, of post] by (simp add: lib)
  moreover have "delete_at (length pre) lib = pre @ post"
    by (simp add: lib delete_at_def)
  ultimately show ?thesis by simp
next
  case False
  then have no: "\<forall>x\<in>set lib. lower (title x) \<noteq> key" by blast
  show ?thesis
    by (simp add: remove_scan_none [OF no] first_match_index_none [OF no])
qed

lemma sample_keys:
  "strip '' foo '' = ''foo''" "strip ''bar'' = ''bar''"
  "lower ''foo'' = ''foo''" "lower ''bar'' = ''bar''"
  "lower (title foo1) = ''foo''" "lower (title foo2) = ''foo''"
  by code_simp+

text \<open>
  C2. When the typed title is not empty after stripping, \<open>remove_book\<close> deletes the first
  book, in library order, whose title equals the stripped input without regard to case,
  and reports success: where the library is \<open>pre @ b # post\<close> with \<open>b\<close> a match and no
  match in \<open>pre\<close>, it becomes \<open>pre @ post\<close>, so a later book with the same title stays
  (and such a first match exists whenever any book matches). When no title matches, the
  session is unchanged and the report is that the book was not found.
\<close>

theorem remove_book_first_match:
  assumes "strip t \<noteq> []"
  shows "(library s = pre @ b # post
            \<and> (\<forall>x\<in>set pre. lower (title x) \<noteq> lower (strip t))
            \<and> lower (title b) = lower (strip t) \<longrightarrow>
           remove_book t True s
             = (s\<lparr>library := pre @ post\<rparr>, Some (Success ''Book removed successfully!'')))
       \<and> ((\<exists>b\<in>set (library s). lower (title b) = lower (strip t)) \<longrightarrow>
           (\<exists>pre b post. library s = pre @ b # post
              \<and> (\<forall>x\<in>set pre. lower (title x) \<noteq> lower (strip t))
              \<and> lower (title b) = lower (strip t)))
       \<and> ((\<forall>b\<in>set (library s). lower (title b) \<noteq> lower (strip t)) \<longrightarrow>
           remove_book t True s = (s, Some (Error ''Book not found in the library.'')))"
proof (intro conjI impI)
  assume a: "library s = pre @ b # post
            \<and> (\<forall>x\<in>set pre. lower (title x) \<noteq> lower (strip t))
            \<and> lower (title b) = lower (strip t)"
  then have lib: "library s = pre @ b # post" and b: "lower (title b) = lower (strip t)"
    and pre: "\<forall>x\<in>set pre. lower (title x) \<noteq> lower (strip t)"
    by simp_all
  have "remove_scan (lower (strip t)) (library s) (library s) = Some (pre @ post)"
    using remove_scan_first [OF pre b, of post "library s"] remove1_first [OF pre b, of post]
    by (simp add: lib)
  then show "remove_book t True s
      = (s\<lparr>library := pre @ post\<rparr>, Some (Success ''Book removed successfully!''))"
    using assms by (simp add: remove_book_def)
next
  assume "\<exists>b\<in>set (library s). lower (title b) = lower (strip t)"
  then show "\<exists>pre b post. library s = pre @ b # post
      \<and> (\<forall>x\<in>set pre. lower (title x) \<noteq> lower (strip t))
      \<and> lower (title b) = lower (strip t)"
    using split_list_first_prop [of "library s" "\<lambda>b. lower (title b) = lower (strip t)"]
    by blast
next
  assume no: "\<forall>b\<in>set (library s). lower (title b) \<noteq> lower (strip t)"
  show "remove_book t True s = (s, Some (Error ''Book not found in the library.''))"
    using assms by (simp add: remove_book_def remove_scan_none [OF no])
qed

theorem remove_book_first_match_witness:
  "strip '' foo '' \<noteq> []
   \<and> library (session [foo1, foo2]) = [] @ foo1 # [foo2]
   \<and> lower (title foo1) = lower (strip '' foo '')
   \<and> lower (title foo2) = lower (strip '' foo '')
   \<and> remove_book '' foo '' True (session [foo1, foo2])
       = (session [foo2], Some (Success ''Book removed successfully!''))
   \<and> strip ''bar'' \<noteq> []
   \<and> \<not> (\<exists>b\<in>set (library (session [foo1, foo2])). lower (title b) = lower (strip ''bar''))
   \<and> remove_book ''bar'' True (session [foo1, foo2])
       = (session [foo1, foo2], Some (Error ''Book not found in the library.''))"
proof -
  have h1: "strip '' foo '' \<noteq> []" and h2: "strip ''bar'' \<noteq> []"
    by (simp_all add: sample_keys)
  show ?thesis
    using h1 h2
      remove_book_first_match [OF h1, of "session [foo1, foo2]" "[]" foo1 "[foo2]"]
      remove_book_first_match [OF h2, of "session [foo1, foo2]" "[]" foo1 "[foo2]"]
    by (simp add: session_def sample_keys)
qed

text \<open>
  C10. The two steps of the code, the scan of the copy for the first book with a matching
  title and then \<open>list.remove\<close> by equality of values, leave the library that deleting
  the position of the first match leaves, whatever duplicates the library holds.
\<close>

theorem remove_book_deletes_first_index:
  assumes "strip t \<noteq> []"
  shows "library (fst (remove_book t True s)) =
           (case first_match_index (lower (strip t)) (library s) of
              Some i \<Rightarrow> delete_at i (library s)
            | None \<Rightarrow> library s)"
  using assms remove_scan_delete_at [of "lower (strip t)" "library s"]
  by (simp add: remove_book_def split: option.splits)

theorem remove_book_deletes_first_index_witness:
  "strip '' foo '' \<noteq> []
   \<and> first_match_index (lower (strip '' foo '')) (library (session [dune, foo1, foo1])) = Some 1
   \<and> library (fst (remove_book '' foo '' True (session [dune, foo1, foo1]))) = [dune, foo1]"
proof -
  have h: "strip '' foo '' \<noteq> []" by (simp add: sample_keys)
  have d: "lower (title dune) \<noteq> ''foo''" by code_simp
  have i: "first_match_index (lower (strip '' foo '')) (library (session [dune, foo1, foo1]))
             = Some 1"
    using d by (simp add: session_def sample_keys)
  show ?thesis
    using h i remove_book_deletes_first_index [OF h, of "session [dune, foo1, foo1]"]
    by (simp add: delete_at_def session_def)
qed

section \<open>Adding\<close>



text \<open>
  C4. On submit, \<open>add_book\<close> reports the validation error and leaves the session as it
  was when the title, the author or the genre is empty after stripping; otherwise it
  appends one book, made of the stripped texts, the given year and the read flag of the
  select box, behind the books already there, which stay in place.
\<close>

theorem add_book_validates_then_appends:
  "(strip t = [] \<or> strip a = [] \<or> strip g = [] \<longrightarrow>
      add_book t a y g r True s = (s, Some (Error ''Please fill in all fields.'')))
   \<and> (strip t \<noteq> [] \<and> strip a \<noteq> [] \<and> strip g \<noteq> [] \<longrightarrow>
      add_book t a y g r True s =
        (s\<lparr>library := library s @
              [\<lparr>title = strip t, author = strip a, year = y, genre = strip g,
                read = (r = ''Yes'')\<rparr>]\<rparr>,
         Some (Success ''Book added successfully!''))
      \<and> length (library (fst (add_book t a y g r True s))) = Suc (length (library s))
      \<and> take (length (library s)) (library (fst (add_book t a y g r True s))) = library s)"
  by (simp add: add_book_def)

theorem add_book_validates_then_appends_witness:
  "strip '''' = []
   \<and> add_book '''' ''Author'' 2000 ''Genre'' ''No'' True (session [foo1])
       = (session [foo1], Some (Error ''Please fill in all fields.''))
   \<and> strip '' Dune'' \<noteq> [] \<and> strip ''Frank Herbert '' \<noteq> [] \<and> strip ''SciFi'' \<noteq> []
   \<and> add_book '' Dune'' ''Frank Herbert '' 1965 ''SciFi'' ''Yes'' True (session [foo1])
       = (session [foo1, dune], Some (Success ''Book added successfully!''))"
proof -
  have e: "strip '''' = []" by (simp add: strip_def)
  have n: "strip '' Dune'' = ''Dune''" "strip ''Frank Herbert '' = ''Frank Herbert''"
    "strip ''SciFi'' = ''SciFi''"
    by code_simp+
  show ?thesis
    using e n
      add_book_validates_then_appends
        [of "''''" "''Author''" "''Genre''" 2000 "''No''" "session [foo1]"]
      add_book_validates_then_appends
        [of "'' Dune''" "''Frank Herbert ''" "''SciFi''" 1965 "''Yes''" "session [foo1]"]
    by (simp add: session_def dune_def)
qed

section \<open>Statistics\<close>




section \<open>Searching\<close>

text \<open>
  C3 fails on the code. The emptiness test of line 83 strips the term, but lines 85 and
  87 look for the term as typed: with a leading space, \<open>'' dune''\<close> finds nothing in a
  library that holds \<open>Dune\<close>, where the stripped term is contained in that title.
\<close>

theorem search_book_unstripped_term:
  "strip '' dune'' \<noteq> []
   \<and> search_book ''Title'' '' dune'' True (session [foo1, dune])
       = (session [foo1, dune], Some (Warning ''No matching books found.''))
   \<and> filter (\<lambda>b. sublist (lower (strip '' dune'')) (lower (title b)))
         (library (session [foo1, dune])) = [dune]"
proof -
  have s: "strip '' dune'' = ''dune''" by code_simp
  have a: "\<not> sublist (lower '' dune'') (lower (title foo1))"
    "\<not> sublist (lower '' dune'') (lower (title dune))"
    "\<not> sublist (lower ''dune'') (lower (title foo1))"
    "sublist (lower ''dune'') (lower (title dune))"
    by code_simp+
  show ?thesis
    using a by (simp add: s search_book_def session_def)
qed

section \<open>Saving and loading\<close>

subsection \<open>The decoder consumes what it reads\<close>

lemma match_integer_length: "match_integer s = Some (ds, r) \<Longrightarrow> length r < length s"
  by (auto simp: match_integer_def less_Suc_eq_le length_dropWhile_le
      split: list.splits if_splits)

lemma match_frac_length: "match_frac s = (f, r) \<Longrightarrow> length r \<le> length s"
  by (auto simp: match_frac_def le_Suc_eq length_dropWhile_le split: list.splits if_splits)

lemma match_sign_length: "match_sign s = (g, r) \<Longrightarrow> length r \<le> length s"
  by (auto simp: match_sign_def split: list.splits if_splits)

lemma match_exp_length: "match_exp s = (x, r) \<Longrightarrow> length r \<le> length s"
proof (cases s)
  case Nil
  assume "match_exp s = (x, r)"
  with Nil show ?thesis by (simp add: match_exp_def)
next
  case (Cons c cs)
  assume a: "match_exp s = (x, r)"
  obtain g q where g: "match_sign cs = (g, q)" by (cases "match_sign cs")
  have "length (dropWhile is_digit q) \<le> length q" by (rule length_dropWhile_le)
  with match_sign_length [OF g] have "length (dropWhile is_digit q) \<le> length cs" by simp
  with a Cons g show ?thesis
    by (auto simp: match_exp_def split: if_splits)
qed

lemma match_number_length: "match_number s = Some (v, r) \<Longrightarrow> length r < length s"
proof -
  assume a: "match_number s = Some (v, r)"
  define s1 where "s1 = (case s of [] \<Rightarrow> s | c # cs \<Rightarrow> if c = CHR ''-'' then cs else s)"
  have s1: "length s1 \<le> length s" by (simp add: s1_def split: list.splits)
  obtain ds r1 where i: "match_integer s1 = Some (ds, r1)"
    using a by (cases "match_integer s1")
      (auto simp: match_number_def s1_def split: list.splits if_splits)
  obtain f r2 where f: "match_frac r1 = (f, r2)" by (cases "match_frac r1")
  obtain x r3 where x: "match_exp r2 = (x, r3)" by (cases "match_exp r2")
  have "r = r3"
    using a i f x by (auto simp: match_number_def s1_def split: list.splits if_splits)
  with match_integer_length [OF i] match_frac_length [OF f] match_exp_length [OF x] s1
  show ?thesis by simp
qed

lemma scan_start_atom_length: "scan_start s = Atom v r \<Longrightarrow> length r < length s"
proof (cases s)
  case Nil
  assume "scan_start s = Atom v r"
  with Nil show ?thesis by (simp add: scan_start_def)
next
  case (Cons c cs)
  assume a: "scan_start s = Atom v r"
  have w: "\<And>d ds. skip_ws cs = d # ds \<Longrightarrow> length ds < length cs"
    by (rule skip_ws_Cons_length)
  show ?thesis
    using a unfolding Cons scan_start_def
    by (auto simp: starts_with_def split: if_splits sum.splits list.splits option.splits
        dest!: scanstring_length match_number_length w)
qed

lemma array_next_length:
  "array_next s = Close r \<or> array_next s = More r \<Longrightarrow> length r < length s"
proof -
  assume a: "array_next s = Close r \<or> array_next s = More r"
  then obtain d ds where w: "skip_ws s = d # ds" and r: "r = ds \<or> r = skip_ws ds"
    by (auto simp: array_next_def split: list.splits if_splits)
  from skip_ws_Cons_length [OF w] skip_ws_length [of ds] r show ?thesis by auto
qed

lemma object_next_length:
  "object_next s = Close r \<or> object_next s = More r \<Longrightarrow> length r < length s"
proof -
  assume a: "object_next s = Close r \<or> object_next s = More r"
  then obtain d ds where w: "skip_ws s = d # ds"
    and r: "r = ds \<or> (\<exists>q. skip_ws ds = q # r)"
    by (auto simp: object_next_def split: list.splits if_splits)
  from r show ?thesis
  proof
    assume "r = ds"
    with skip_ws_Cons_length [OF w] show ?thesis by simp
  next
    assume "\<exists>q. skip_ws ds = q # r"
    then obtain q where "skip_ws ds = q # r" by blast
    from skip_ws_Cons_length [OF this] skip_ws_Cons_length [OF w] show ?thesis by simp
  qed
qed

lemma decoder_consumes:
  "\<forall>v r. scan_once s = Inr (v, r) \<longrightarrow> length r < length s"
  "\<forall>v r. parse_array acc s1 = Inr (v, r) \<longrightarrow> length r < length s1"
  "\<forall>v r. parse_object acc2 s2 = Inr (v, r) \<longrightarrow> length r < length s2"
proof (induction s and acc s1 and acc2 s2 rule: scan_once_parse_array_parse_object.induct)
  case (1 s)
  show ?case
  proof (intro allI impI)
    fix v r
    assume a: "scan_once s = Inr (v, r)"
    show "length r < length s"
    proof (cases "scan_start s")
      case (Atom v' r')
      with a have "r = r'" by (simp add: scan_once.simps [of s])
      with scan_start_atom_length [OF Atom] show ?thesis by simp
    next
      case (Open_Array r')
      with a have "parse_array [] r' = Inr (v, r)" by (simp add: scan_once.simps [of s])
      with "1.IH"(1) [OF Open_Array] have "length r < length r'" by blast
      with scan_start_array_length [OF Open_Array] show ?thesis by simp
    next
      case (Open_Object r')
      with a have "parse_object [] r' = Inr (v, r)" by (simp add: scan_once.simps [of s])
      with "1.IH"(2) [OF Open_Object] have "length r < length r'" by blast
      with scan_start_object_length [OF Open_Object] show ?thesis by simp
    next
      case No_Value
      with a show ?thesis by (simp add: scan_once.simps [of s])
    qed
  qed
next
  case (2 acc s)
  show ?case
  proof (intro allI impI)
    fix v r
    assume a: "parse_array acc s = Inr (v, r)"
    then obtain v0 r0 where so: "scan_once s = Inr (v0, r0)"
      by (cases "scan_once s") (auto simp: parse_array.simps [of acc s])
    from "2.IH"(1) so have l0: "length r0 < length s" by blast
    show "length r < length s"
    proof (cases "array_next r0")
      case (Close r')
      with a so have "r = r'" by (simp add: parse_array.simps [of acc s])
      with array_next_length [of r0 r'] Close l0 show ?thesis by simp
    next
      case (More r')
      from array_next_length [of r0 r'] More l0 have g: "length r' < length s" by simp
      with a so More have "parse_array (acc @ [v0]) r' = Inr (v, r)"
        by (simp add: parse_array.simps [of acc s])
      with "2.IH"(2) [OF so refl More g] have "length r < length r'"
        by blast
      with g show ?thesis by simp
    next
      case No_Delimiter
      with a so show ?thesis by (simp add: parse_array.simps [of acc s])
    qed
  qed
next
  case (3 acc s)
  show ?case
  proof (intro allI impI)
    fix v r
    assume a: "parse_object acc s = Inr (v, r)"
    then obtain key rk where k: "object_key s = Some (key, rk)"
      by (cases "object_key s") (auto simp: parse_object.simps [of acc s])
    from a k obtain v0 r0 where so: "scan_once rk = Inr (v0, r0)"
      by (cases "scan_once rk") (auto simp: parse_object.simps [of acc s])
    from "3.IH"(1) [OF k refl] so have "length r0 < length rk" by blast
    with object_key_length [OF k] have l0: "length r0 < length s" by simp
    show "length r < length s"
    proof (cases "object_next r0")
      case (Close r')
      with a k so have "r = r'" by (simp add: parse_object.simps [of acc s])
      with object_next_length [of r0 r'] Close l0 show ?thesis by simp
    next
      case (More r')
      from object_next_length [of r0 r'] More l0 have g: "length r' < length s" by simp
      with a k so More have "parse_object (acc @ [(key, v0)]) r' = Inr (v, r)"
        by (simp add: parse_object.simps [of acc s])
      with "3.IH"(2) [OF k refl so refl More g]
      have "length r < length r'" by blast
      with g show ?thesis by simp
    next
      case No_Delimiter
      with a k so show ?thesis by (simp add: parse_object.simps [of acc s])
    qed
  qed
qed

lemma scan_once_consumes: "scan_once s = Inr (v, r) \<Longrightarrow> length r < length s"
  using decoder_consumes(1) [of s] by blast

lemma parse_array_unguarded:
  "parse_array acc s =
     (case scan_once s of
        Inl e \<Rightarrow> Inl e
      | Inr (v, r) \<Rightarrow>
          (case array_next r of
             No_Delimiter \<Rightarrow> Inl JSONDecodeError
           | Close r' \<Rightarrow> Inr (JArr (acc @ [v]), r')
           | More r' \<Rightarrow> parse_array (acc @ [v]) r'))"
proof (cases "scan_once s")
  case (Inl e)
  then show ?thesis by (simp add: parse_array.simps [of acc s])
next
  case (Inr p)
  obtain v r where p: "p = (v, r)" by (cases p)
  have "\<And>r'. array_next r = More r' \<Longrightarrow> length r' < length s"
    using scan_once_consumes [of s v r] array_next_length [of r] Inr p by fastforce
  then show ?thesis
    by (simp add: parse_array.simps [of acc s] Inr p split: continue.splits)
qed

lemma parse_object_unguarded:
  "parse_object acc s =
     (case object_key s of
        None \<Rightarrow> Inl JSONDecodeError
      | Some (key, r) \<Rightarrow>
          (case scan_once r of
             Inl e \<Rightarrow> Inl e
           | Inr (v, r2) \<Rightarrow>
               (case object_next r2 of
                  No_Delimiter \<Rightarrow> Inl JSONDecodeError
                | Close r' \<Rightarrow> Inr (JObj (dict (acc @ [(key, v)])), r')
                | More r' \<Rightarrow> parse_object (acc @ [(key, v)]) r')))"
proof (cases "object_key s")
  case None
  then show ?thesis by (simp add: parse_object.simps [of acc s])
next
  case (Some kr)
  obtain key r where kr: "kr = (key, r)" by (cases kr)
  show ?thesis
  proof (cases "scan_once r")
    case (Inl e)
    then show ?thesis by (simp add: parse_object.simps [of acc s] Some kr)
  next
    case (Inr p)
    obtain v r2 where p: "p = (v, r2)" by (cases p)
    have "\<And>r'. object_next r2 = More r' \<Longrightarrow> length r' < length s"
      using scan_once_consumes [of r v r2] object_next_length [of r2]
        object_key_length [of s key r] Some kr Inr p by fastforce
    then show ?thesis
      by (simp add: parse_object.simps [of acc s] Some kr Inr p split: continue.splits)
  qed
qed

subsection \<open>Strings survive the escapes\<close>










subsection \<open>Integers survive their decimal form\<close>

















subsection \<open>The steps of the object and array loops\<close>





















subsection \<open>A book, and a library, read back from their text\<close>












subsection \<open>The text that is written\<close>







text \<open>
  What \<open>load_library\<close> does with a missing file and with a text that is no JSON: with no
  file at the path it gives the information that none was found and leaves the session
  as it is, so the library is empty when it was empty at the call, as it is where \<open>main\<close>
  calls \<open>load_library\<close>; with a text that \<open>json.load\<close> rejects it gives the error report
  and the empty library, and the file store is as before.
\<close>

lemma load_library_missing_or_rejected:
  "(files s LIBRARY_FILE = None \<longrightarrow>
      load_library s = Inr (s, Info ''No library file found. Starting with an empty library.''))
   \<and> (files s LIBRARY_FILE = Some (Text content) \<and> json_loads content = Inl e \<longrightarrow>
      (\<exists>s'. load_library s
               = Inr (s', Error ''Error loading library file. Starting with an empty library.'')
            \<and> library s' = [] \<and> files s' = files s))"
  by (cases e) (simp add: load_library_def)

lemma load_library_rejected_sample:
  "load_library (stored ''{bad'')
     = Inr (stored ''{bad'',
            Error ''Error loading library file. Starting with an empty library.'')"
proof -
  have "json_loads ''{bad'' = Inl JSONDecodeError" by code_simp
  then show ?thesis by (simp add: load_library_def stored_def)
qed

text \<open>
  C6 fails on the code. The library file exists but cannot be read as text: it holds
  bytes that are no text in the default encoding, so that \<open>read\<close> raises
  \<open>UnicodeDecodeError\<close>. Line 20 catches \<open>json.JSONDecodeError\<close> only, and the exception
  leaves \<open>load_library\<close>: no empty library, no report. \<open>save_library\<close>, with
  \<open>except Exception\<close>, reports the same kind of failure.
\<close>

theorem load_library_read_error_escapes:
  "files \<lparr>library = [], files = [LIBRARY_FILE \<mapsto> Unreadable ''UnicodeDecodeError'']\<rparr>
       LIBRARY_FILE \<noteq> None
   \<and> load_library \<lparr>library = [], files = [LIBRARY_FILE \<mapsto> Unreadable ''UnicodeDecodeError'']\<rparr>
       = Inl (Raised ''UnicodeDecodeError'')
   \<and> snd (save_library (Some (Open_Fails ''PermissionError'')) (session []))
       = Error ''Error saving library: PermissionError''"
  by (simp add: load_library_def save_library_def)






text \<open>
  C9. When opening the file or writing it raises, \<open>save_library\<close> still returns: its
  report is the error with the message of the exception, and the library of the session
  is the one it was called with.
\<close>

theorem save_library_failure_is_reported:
  "snd (save_library (Some f) s) = Error (''Error saving library: '' @ fault_message f)
   \<and> library (fst (save_library (Some f) s)) = library s"
  by (cases f) (simp_all add: save_library_def)

theorem save_library_failure_is_reported_witness:
  "snd (save_library (Some (Write_Fails 10 ''[Errno 28] No space left on device''))
         (session [foo1, dune]))
     = Error ''Error saving library: [Errno 28] No space left on device''
   \<and> library (fst (save_library (Some (Write_Fails 10 ''[Errno 28] No space left on device''))
                    (session [foo1, dune]))) = [foo1, dune]
   \<and> snd (save_library (Some (Open_Fails ''[Errno 13] Permission denied''))
         (session [foo1, dune]))
     = Error ''Error saving library: [Errno 13] Permission denied''"
  using save_library_failure_is_reported
      [of "Write_Fails 10 ''[Errno 28] No space left on device''" "session [foo1, dune]"]
    save_library_failure_is_reported
      [of "Open_Fails ''[Errno 13] Permission denied''" "session [foo1, dune]"]
  by (simp add: session_def)

end
